theory Spec2Isabelle
  imports Main "HOL-Library.Word"
begin

section \<open>BankApp: the values of one render\<close>

text \<open>
  \<open>src/components/BankApp.tsx\<close> is one React function component. Every handler and
  effect of the component is a closure over the values of the render that created it, so
  the model gives each of them the record of those values: the five \<open>useState\<close> cells
  that matter to the transaction flow, the wallet account, the public client (which
  \<open>usePublicClient\<close> may leave undefined), the two contract reads and the
  \<open>data\<close>/\<open>isSuccess\<close> pair of each of the three \<open>useWriteContract\<close> hooks.
  A JavaScript value that may be \<open>undefined\<close> is an \<open>option\<close>.
\<close>

type_synonym hash = string

record view =
  amount :: string
  balance :: string
  isApproved :: bool
  isLoading :: bool
  progress :: nat
  isConnected :: bool
  address :: "string option"
  publicClient :: bool
  bankBalance :: "int option"
  allowance :: "int option"
  depositHash :: "hash option"
  depositSuccess :: bool
  withdrawHash :: "hash option"
  withdrawSuccess :: bool
  approveHash :: "hash option"
  approveSuccess :: bool

text \<open>
  What a handler or an effect does is the sequence of its calls, in program order: the
  state setters, the contract writes, the refetches of the two reads, the wait for a
  receipt with its outcomes, the half-second pause and the error log. The contract
  addresses are constants of \<open>config/contracts\<close>, so a write is recorded with its
  amount only: \<open>Approve n\<close> is \<open>approve(BANK_CONTRACT_ADDRESS, n)\<close> on the token.

  The awaited \<open>waitForTransactionReceipt\<close> of line 89 is viem's: for a transaction
  that was mined it returns the receipt, whose \<open>status\<close> is \<open>success\<close> or
  \<open>reverted\<close>, and it raises on a timeout or a transport error.
\<close>

datatype receipt_status = Success | Reverted

datatype wait_result = Receipt receipt_status | WaitError

datatype event =
    SetAmount string
  | SetBalance string
  | SetIsApproved bool
  | SetIsLoading bool
  | SetProgress nat
  | Approve int
  | Deposit int
  | Withdraw int
  | RefetchBalance
  | RefetchAllowance
  | WaitForTransactionReceipt hash
  | ReceiptReturned hash receipt_status
  | WaitFailed hash
  | Timeout nat
  | ConsoleError string

datatype outcome = Resolved | Rejected

text \<open>The state after the first render: the arguments of the \<open>useState\<close> calls, nothing
  connected and nothing read or written yet.\<close>

definition initial :: view where
  "initial = \<lparr> amount = [], balance = [], isApproved = False, isLoading = False,
     progress = 0, isConnected = False, address = None, publicClient = False,
     bankBalance = None, allowance = None,
     depositHash = None, depositSuccess = False,
     withdrawHash = None, withdrawSuccess = False,
     approveHash = None, approveSuccess = False \<rparr>"

text \<open>
  A setter overwrites its cell. Every other call leaves the component's own state as it
  is: the reads and the write hooks change only when the ledger answers.
\<close>

fun apply_event :: "event \<Rightarrow> view \<Rightarrow> view" where
  "apply_event (SetAmount s) v = v\<lparr>amount := s\<rparr>"
| "apply_event (SetBalance s) v = v\<lparr>balance := s\<rparr>"
| "apply_event (SetIsApproved b) v = v\<lparr>isApproved := b\<rparr>"
| "apply_event (SetIsLoading b) v = v\<lparr>isLoading := b\<rparr>"
| "apply_event (SetProgress n) v = v\<lparr>progress := n\<rparr>"
| "apply_event _ v = v"

fun run :: "event list \<Rightarrow> view \<Rightarrow> view" where
  "run [] v = v"
| "run (e # es) v = run es (apply_event e v)"

text \<open>
  What the component sees when a submitted write settles. Lines 39-41 take from each
  \<open>useWriteContract\<close> hook the write function, \<open>data\<close> and \<open>isSuccess\<close> and nothing
  else. When the wallet and the node accept the transaction, \<open>data\<close> is its hash and
  \<open>isSuccess\<close> is true. When either rejects it, the hook reports the failure in its
  error fields only: \<open>data\<close> is undefined and \<open>isSuccess\<close> is false.
\<close>

datatype write_hook = ApproveWrite | DepositWrite | WithdrawWrite

fun writeSettled :: "write_hook \<Rightarrow> hash option \<Rightarrow> view \<Rightarrow> view" where
  "writeSettled ApproveWrite r v = v\<lparr>approveHash := r, approveSuccess := (r \<noteq> None)\<rparr>"
| "writeSettled DepositWrite r v = v\<lparr>depositHash := r, depositSuccess := (r \<noteq> None)\<rparr>"
| "writeSettled WithdrawWrite r v = v\<lparr>withdrawHash := r, withdrawSuccess := (r \<noteq> None)\<rparr>"

text \<open>
  What the component sees when the wallet reports another account, or none. Both reads
  are keyed by the address (lines 25 and 34) and enabled only with one (lines 26 and 35),
  so their \<open>data\<close> is undefined until the read for the new address has returned; the
  component's own state is not touched. \<open>allowanceRead\<close> and \<open>balanceRead\<close> are the
  two reads returning.
\<close>

definition accountChanged :: "string option \<Rightarrow> view \<Rightarrow> view" where
  "accountChanged a v =
     v\<lparr>isConnected := (a \<noteq> None), address := a, bankBalance := None, allowance := None\<rparr>"

definition allowanceRead :: "int \<Rightarrow> view \<Rightarrow> view" where
  "allowanceRead n v = v\<lparr>allowance := Some n\<rparr>"


fun is_refetch :: "event \<Rightarrow> bool" where
  "is_refetch RefetchBalance = True"
| "is_refetch RefetchAllowance = True"
| "is_refetch _ = False"

fun is_receipt_of :: "hash \<Rightarrow> event \<Rightarrow> bool" where
  "is_receipt_of h (ReceiptReturned h' s) = (h' = h)"
| "is_receipt_of h _ = False"

fun is_ledger_call :: "event \<Rightarrow> bool" where
  "is_ledger_call (Approve _) = True"
| "is_ledger_call (Deposit _) = True"
| "is_ledger_call (Withdraw _) = True"
| "is_ledger_call RefetchBalance = True"
| "is_ledger_call RefetchAllowance = True"
| "is_ledger_call (WaitForTransactionReceipt _) = True"
| "is_ledger_call _ = False"

fun approvals :: "event list \<Rightarrow> int list" where
  "approvals [] = []"
| "approvals (Approve n # es) = n # approvals es"
| "approvals (_ # es) = approvals es"

fun deposits :: "event list \<Rightarrow> int list" where
  "deposits [] = []"
| "deposits (Deposit n # es) = n # deposits es"
| "deposits (_ # es) = deposits es"

fun withdrawals :: "event list \<Rightarrow> int list" where
  "withdrawals [] = []"
| "withdrawals (Withdraw n # es) = n # withdrawals es"
| "withdrawals (_ # es) = withdrawals es"

fun balance_writes :: "event list \<Rightarrow> string list" where
  "balance_writes [] = []"
| "balance_writes (SetBalance s # es) = s # balance_writes es"
| "balance_writes (_ # es) = balance_writes es"

fun approved_writes :: "event list \<Rightarrow> bool list" where
  "approved_writes [] = []"
| "approved_writes (SetIsApproved b # es) = b # approved_writes es"
| "approved_writes (_ # es) = approved_writes es"

section \<open>The library functions the component calls\<close>

text \<open>
  \<open>parseUnits\<close> and \<open>formatUnits\<close> are viem's, not the repository's, so every handler
  below takes the parser as a parameter \<open>pu\<close> (\<open>None\<close> where \<open>parseUnits(s, 18)\<close>
  throws) and the display formatting \<open>Number(formatUnits(b, 18)).toFixed(6)\<close> as a
  parameter \<open>fmt\<close>. The general theorems hold for every parser.

  For evaluating the handlers on concrete inputs, \<open>parseUnits18\<close> follows viem's
  \<open>parseUnits(value, 18)\<close>: the input must match \<open>-?[0-9]*\.?[0-9]*\<close>, trailing zeros of
  the fraction are dropped, the fraction is cut to 18 digits and rounded on the 19th, and
  the result is the signed integer of the digits. viem reads the dropped digits through a
  double before rounding; here the 19th digit decides, which is the same result unless the
  dropped digits are within 1e-16 of one half.
\<close>

definition is_digit :: "char \<Rightarrow> bool" where
  "is_digit c = (c \<in> set ''0123456789'')"

definition digit_val :: "char \<Rightarrow> int" where
  "digit_val c = int (of_char c) - 48"

definition digits_val :: "string \<Rightarrow> int" where
  "digits_val ds = foldl (\<lambda>n c. 10 * n + digit_val c) 0 ds"

definition parseUnits18 :: "string \<Rightarrow> int option" where
  "parseUnits18 s =
     (let negative = (s \<noteq> [] \<and> hd s = CHR ''-'');
          body = (if negative then tl s else s);
          integer = takeWhile (\<lambda>c. c \<noteq> CHR ''.'') body;
          rest = dropWhile (\<lambda>c. c \<noteq> CHR ''.'') body;
          fraction = (if rest = [] then ''0'' else tl rest)
      in if \<not> (list_all is_digit integer \<and> list_all is_digit fraction) then None
         else
           let trimmed = rev (dropWhile (\<lambda>c. c = CHR ''0'') (rev fraction));
               kept = take 18 trimmed;
               dropped = drop 18 trimmed;
               up = (if dropped \<noteq> [] \<and> 5 \<le> digit_val (hd dropped) then 1 else 0);
               magnitude = digits_val integer * 10 ^ 18
                 + digits_val kept * 10 ^ (18 - length kept) + up
           in Some (if negative then - magnitude else magnitude))"

text \<open>\<open>BigInt("0x" + digits)\<close> for a string of lower-case hexadecimal digits.\<close>

definition hex_val :: "char \<Rightarrow> int" where
  "hex_val c = (if is_digit c then digit_val c else int (of_char c) - 87)"

definition bigint_of_hex :: "string \<Rightarrow> int" where
  "bigint_of_hex ds = foldl (\<lambda>n c. 16 * n + hex_val c) 0 ds"

definition maxUint256 :: int where
  "maxUint256 =
     bigint_of_hex ''ffffffffffffffffffffffffffffffffffffffffffffffffffffffffffffffff''"

section \<open>Effects that derive state from the reads\<close>

text \<open>Lines 44-50: on connect the balance is queried, otherwise the display is emptied.
  Lines 52-59: a new truthy \<open>bankBalance\<close> is formatted into the display (\<open>0n\<close> is falsy).\<close>

definition truthy_string :: "string option \<Rightarrow> bool" where
  "truthy_string x = (case x of None \<Rightarrow> False | Some s \<Rightarrow> s \<noteq> [])"

definition truthy_bigint :: "int option \<Rightarrow> bool" where
  "truthy_bigint x = (case x of None \<Rightarrow> False | Some n \<Rightarrow> n \<noteq> 0)"

definition balanceEffect :: "(int \<Rightarrow> string) \<Rightarrow> view \<Rightarrow> event list" where
  "balanceEffect fmt v =
     (case bankBalance v of
        None \<Rightarrow> []
      | Some b \<Rightarrow> if b \<noteq> 0 then [SetBalance (fmt b)] else [])"

text \<open>Lines 62-69. \<open>parseUnits\<close> is not guarded here: where it throws, the effect
  throws.\<close>

definition approvedEffect :: "(string \<Rightarrow> int option) \<Rightarrow> view \<Rightarrow> event list option" where
  "approvedEffect pu v =
     (case allowance v of
        None \<Rightarrow> Some []
      | Some h \<Rightarrow>
          if amount v \<noteq> [] then
            (case pu (amount v) of
               None \<Rightarrow> None
             | Some requiredAmount \<Rightarrow> Some [SetIsApproved (requiredAmount \<le> h)])
          else Some [SetIsApproved (0 < h)])"

text \<open>The render that follows the effect: its setter applied to the values it ran on.
  \<open>None\<close> where the effect threw.\<close>

definition afterApprovedEffect :: "(string \<Rightarrow> int option) \<Rightarrow> view \<Rightarrow> view option" where
  "afterApprovedEffect pu v =
     (case approvedEffect pu v of None \<Rightarrow> None | Some evs \<Rightarrow> Some (run evs v))"

section \<open>The handlers\<close>

text \<open>Lines 72-83. \<open>refetched\<close> is what the awaited \<open>refetchBalance()\<close> gives: \<open>None\<close>
  where it rejects, otherwise the value it read. The body then tests and formats
  \<open>bankBalance\<close>, the value of the render that created the handler.\<close>

definition handleGetBalance ::
    "(int \<Rightarrow> string) \<Rightarrow> int option option \<Rightarrow> view \<Rightarrow> event list" where
  "handleGetBalance fmt refetched v =
     RefetchBalance #
       (case refetched of
          None \<Rightarrow> [ConsoleError ''Error fetching balance:'']
        | Some _ \<Rightarrow>
            (case bankBalance v of
               None \<Rightarrow> []
             | Some b \<Rightarrow> if b \<noteq> 0 then [SetBalance (fmt b)] else []))"

definition connectEffect ::
    "(int \<Rightarrow> string) \<Rightarrow> int option option \<Rightarrow> view \<Rightarrow> event list" where
  "connectEffect fmt refetched v =
     (if isConnected v \<and> truthy_string (address v) then handleGetBalance fmt refetched v
      else [SetBalance []])"

text \<open>Lines 86-100. \<open>w\<close> is what the awaited \<open>waitForTransactionReceipt\<close> does. The
  body does not read the receipt it gets, so a receipt of either status takes the same
  path; without a public client the optional call is skipped and the function goes on
  as after a receipt. The \<open>finally\<close> block runs on every path.\<close>

definition waitForTransaction ::
    "view \<Rightarrow> hash \<Rightarrow> wait_result \<Rightarrow> event list \<times> outcome" where
  "waitForTransaction v h w =
     (if \<not> publicClient v then
        ([SetProgress 50, SetProgress 100, Timeout 500, SetProgress 0, SetIsLoading False],
         Resolved)
      else
        (case w of
           Receipt s \<Rightarrow>
             ([SetProgress 50, WaitForTransactionReceipt h, ReceiptReturned h s,
               SetProgress 100, Timeout 500, SetProgress 0, SetIsLoading False], Resolved)
         | WaitError \<Rightarrow>
             ([SetProgress 50, WaitForTransactionReceipt h, WaitFailed h,
               ConsoleError ''Transaction failed:'', SetProgress 0, SetIsLoading False],
              Rejected)))"

text \<open>Lines 103-120. \<open>writeThrows\<close> says whether the call of the write function itself
  throws; only then does the \<open>catch\<close> block run.\<close>

definition handleApprove :: "bool \<Rightarrow> view \<Rightarrow> event list" where
  "handleApprove writeThrows v =
     (if amount v = [] \<or> \<not> publicClient v then []
      else [SetIsLoading True, SetProgress 10, Approve maxUint256] @
           (if writeThrows
            then [ConsoleError ''Error approving:'', SetIsLoading False, SetProgress 0]
            else []))"

text \<open>Line 128: the test that sends \<open>handleDeposit\<close> to the approval. \<open>allowance &&
  allowance < depositAmount\<close> is falsy for an undefined allowance and for \<open>0n\<close>.\<close>

definition needsApproval :: "bool \<Rightarrow> bool \<Rightarrow> int option \<Rightarrow> int \<Rightarrow> bool" where
  "needsApproval skipApprovalCheck approved allow depositAmount =
     (\<not> skipApprovalCheck \<and>
      (\<not> approved \<or>
       (case allow of None \<Rightarrow> False | Some h \<Rightarrow> h \<noteq> 0 \<and> h < depositAmount)))"

text \<open>Lines 123-146.\<close>

definition handleDeposit ::
    "(string \<Rightarrow> int option) \<Rightarrow> bool \<Rightarrow> bool \<Rightarrow> view \<Rightarrow> event list" where
  "handleDeposit pu writeThrows skipApprovalCheck v =
     (if amount v = [] \<or> \<not> publicClient v then []
      else
        (case pu (amount v) of
           None \<Rightarrow> [ConsoleError ''Error depositing:'', SetIsLoading False, SetProgress 0]
         | Some depositAmount \<Rightarrow>
             if needsApproval skipApprovalCheck (isApproved v) (allowance v) depositAmount
             then handleApprove writeThrows v
             else [SetIsLoading True, SetProgress 25, Deposit depositAmount] @
                  (if writeThrows
                   then [ConsoleError ''Error depositing:'', SetIsLoading False,
                         SetProgress 0]
                   else [])))"

text \<open>Lines 149-165. The amount is parsed while the arguments of \<open>withdraw\<close> are built,
  after the loading flag and the progress have been set.\<close>

definition handleWithdraw :: "(string \<Rightarrow> int option) \<Rightarrow> bool \<Rightarrow> view \<Rightarrow> event list" where
  "handleWithdraw pu writeThrows v =
     (if amount v = [] \<or> \<not> publicClient v then []
      else [SetIsLoading True, SetProgress 25] @
        (case pu (amount v) of
           None \<Rightarrow> [ConsoleError ''Error withdrawing:'', SetIsLoading False, SetProgress 0]
         | Some a \<Rightarrow>
             Withdraw a #
             (if writeThrows
              then [ConsoleError ''Error withdrawing:'', SetIsLoading False, SetProgress 0]
              else [])))"

section \<open>Effects that follow a submitted transaction\<close>

text \<open>Lines 167-175, 177-185 and 187-195. Each runs when its write hook reports success
  with a hash; what follows the wait is the \<open>then\<close> callback, which a rejected wait
  skips.\<close>

definition approveConfirmEffect ::
    "(string \<Rightarrow> int option) \<Rightarrow> bool \<Rightarrow> wait_result \<Rightarrow> view \<Rightarrow> event list" where
  "approveConfirmEffect pu writeThrows w v =
     (case approveHash v of
        None \<Rightarrow> []
      | Some h \<Rightarrow>
          if approveSuccess v \<and> h \<noteq> [] then
            (case waitForTransaction v h w of
               (evs, Resolved) \<Rightarrow> evs @ RefetchAllowance # handleDeposit pu writeThrows True v
             | (evs, Rejected) \<Rightarrow> evs)
          else [])"

definition depositConfirmEffect :: "wait_result \<Rightarrow> view \<Rightarrow> event list" where
  "depositConfirmEffect w v =
     (case depositHash v of
        None \<Rightarrow> []
      | Some h \<Rightarrow>
          if depositSuccess v \<and> h \<noteq> [] then
            (case waitForTransaction v h w of
               (evs, Resolved) \<Rightarrow> evs @ [RefetchBalance, SetAmount []]
             | (evs, Rejected) \<Rightarrow> evs)
          else [])"

definition withdrawConfirmEffect :: "wait_result \<Rightarrow> view \<Rightarrow> event list" where
  "withdrawConfirmEffect w v =
     (case withdrawHash v of
        None \<Rightarrow> []
      | Some h \<Rightarrow>
          if withdrawSuccess v \<and> h \<noteq> [] then
            (case waitForTransaction v h w of
               (evs, Resolved) \<Rightarrow> evs @ [RefetchBalance, SetAmount []]
             | (evs, Rejected) \<Rightarrow> evs)
          else [])"

section \<open>The two buttons\<close>

text \<open>Lines 211-216: the buttons are rendered only while \<open>isConnected\<close> holds.
  Lines 242-255: both are disabled while the amount is empty or \<open>isLoading\<close> is set,
  and a disabled button calls nothing. The Deposit button calls \<open>handleDeposit()\<close>,
  with \<open>skipApprovalCheck\<close> at its default \<open>false\<close>.\<close>

definition clickDeposit :: "(string \<Rightarrow> int option) \<Rightarrow> bool \<Rightarrow> view \<Rightarrow> event list" where
  "clickDeposit pu writeThrows v =
     (if \<not> isConnected v then []
      else if amount v = [] \<or> isLoading v then []
      else handleDeposit pu writeThrows False v)"

definition clickWithdraw :: "(string \<Rightarrow> int option) \<Rightarrow> bool \<Rightarrow> view \<Rightarrow> event list" where
  "clickWithdraw pu writeThrows v =
     (if \<not> isConnected v then []
      else if amount v = [] \<or> isLoading v then []
      else handleWithdraw pu writeThrows v)"

section \<open>Renders used as examples\<close>

text \<open>
  A connected account that has typed \<open>10\<close> and whose allowance was read as zero; the same
  account once its approval has been submitted and the write hook reports the hash; and
  an account with seven tokens in the bank whose withdrawal of ten has been submitted.
  \<open>display_seven\<close> stands for the formatter on the one balance the examples show.

  Then an account switch: a first account whose allowance was read as the maximum, the
  same after \<open>10\<close> has been typed, and the render after the wallet has changed to a
  second account whose reads have not returned yet. And an account that shows its seven
  tokens, with nothing typed and nothing pending.
\<close>

definition view_unapproved :: view where
  "view_unapproved = initial\<lparr>amount := ''10'', isConnected := True,
     address := Some ''0xc0ffee'', publicClient := True, allowance := Some 0\<rparr>"

definition view_approve_mined :: view where
  "view_approve_mined = view_unapproved\<lparr>isLoading := True, progress := 10,
     approveHash := Some ''0xa1'', approveSuccess := True\<rparr>"

definition view_withdraw_mined :: view where
  "view_withdraw_mined = initial\<lparr>amount := ''10'', balance := ''7.000000'',
     isApproved := False, isLoading := True, progress := 25, isConnected := True,
     address := Some ''0xc0ffee'', publicClient := True,
     bankBalance := Some 7000000000000000000, allowance := Some 0,
     withdrawHash := Some ''0xb2'', withdrawSuccess := True\<rparr>"

definition display_seven :: "int \<Rightarrow> string" where
  "display_seven b = ''7.000000''"

definition view_first_account :: view where
  "view_first_account = initial\<lparr>isApproved := True, isConnected := True,
     address := Some ''0xa11ce'', publicClient := True, allowance := Some maxUint256\<rparr>"

definition view_first_account_typed :: view where
  "view_first_account_typed = view_first_account\<lparr>amount := ''10''\<rparr>"

definition view_switched :: view where
  "view_switched = view_first_account_typed\<lparr>address := Some ''0xb0b'', allowance := None\<rparr>"

definition view_seven :: view where
  "view_seven = initial\<lparr>balance := ''7.000000'', isConnected := True,
     address := Some ''0xc0ffee'', publicClient := True,
     bankBalance := Some 7000000000000000000, allowance := Some 0\<rparr>"

section \<open>Basic facts about the traces\<close>

lemma maxUint256_value: "maxUint256 = 2 ^ 256 - 1"
  by (simp add: maxUint256_def bigint_of_hex_def hex_val_def is_digit_def digit_val_def)

lemma uint256_max: "uint (- 1 :: 256 word) = 2 ^ 256 - 1"
  by (simp add: unsigned_minus_1_eq_mask mask_eq_exp_minus_1)

lemma parseUnits18_10: "parseUnits18 ''10'' = Some 10000000000000000000"
  by (simp add: parseUnits18_def is_digit_def digit_val_def digits_val_def Let_def)

lemma parseUnits18_minus5: "parseUnits18 ''-5'' = Some (- 5000000000000000000)"
  by (simp add: parseUnits18_def is_digit_def digit_val_def digits_val_def Let_def)

lemma parseUnits18_abc: "parseUnits18 ''abc'' = None"
  by (simp add: parseUnits18_def is_digit_def digit_val_def digits_val_def Let_def)

lemma parseUnits18_1e5: "parseUnits18 ''1e5'' = None"
  by (simp add: parseUnits18_def is_digit_def digit_val_def digits_val_def Let_def)

lemma run_append: "run (es @ fs) v = run fs (run es v)"
  by (induction es arbitrary: v) simp_all

lemma approvals_append: "approvals (es @ fs) = approvals es @ approvals fs"
  by (induction es rule: approvals.induct) simp_all

lemma deposits_append: "deposits (es @ fs) = deposits es @ deposits fs"
  by (induction es rule: deposits.induct) simp_all

lemma withdrawals_append: "withdrawals (es @ fs) = withdrawals es @ withdrawals fs"
  by (induction es rule: withdrawals.induct) simp_all

lemma balance_writes_append:
  "balance_writes (es @ fs) = balance_writes es @ balance_writes fs"
  by (induction es rule: balance_writes.induct) simp_all

lemma approved_writes_append:
  "approved_writes (es @ fs) = approved_writes es @ approved_writes fs"
  by (induction es rule: approved_writes.induct) simp_all

text \<open>No call of the component writes the two reads; a trace without a given setter
  leaves that cell alone.\<close>

lemma apply_event_reads:
  "bankBalance (apply_event e v) = bankBalance v \<and> allowance (apply_event e v) = allowance v"
  by (cases e) simp_all

lemma run_reads:
  "bankBalance (run es v) = bankBalance v \<and> allowance (run es v) = allowance v"
  by (induction es arbitrary: v) (simp_all add: apply_event_reads)

lemma run_balance: "balance_writes es = [] \<Longrightarrow> balance (run es v) = balance v"
  by (induction es arbitrary: v rule: balance_writes.induct) simp_all

lemma run_isApproved: "approved_writes es = [] \<Longrightarrow> isApproved (run es v) = isApproved v"
  by (induction es arbitrary: v rule: approved_writes.induct) simp_all

subsection \<open>The wait for a receipt\<close>

lemma deposits_waitForTransaction: "deposits (fst (waitForTransaction v h w)) = []"
  by (simp add: waitForTransaction_def split: wait_result.splits)

lemma approvals_waitForTransaction: "approvals (fst (waitForTransaction v h w)) = []"
  by (simp add: waitForTransaction_def split: wait_result.splits)

lemma balance_writes_waitForTransaction:
  "balance_writes (fst (waitForTransaction v h w)) = []"
  by (simp add: waitForTransaction_def split: wait_result.splits)

text \<open>The \<open>finally\<close> block: whatever the outcome, the wait ends with the progress at zero
  and the loading flag down.\<close>

lemma waitForTransaction_clears:
  "\<not> isLoading (run (fst (waitForTransaction v h w)) st) \<and>
   progress (run (fst (waitForTransaction v h w)) st) = 0"
  by (simp add: waitForTransaction_def split: wait_result.splits)

lemma waitForTransaction_outcome:
  "snd (waitForTransaction v h w) = (if publicClient v \<and> w = WaitError then Rejected else Resolved)"
  by (simp add: waitForTransaction_def split: wait_result.splits)

subsection \<open>The handlers\<close>

lemma deposits_handleApprove: "deposits (handleApprove wt v) = []"
  by (simp add: handleApprove_def)

lemma balance_writes_handleApprove: "balance_writes (handleApprove wt v) = []"
  by (simp add: handleApprove_def)

lemma balance_writes_handleDeposit: "balance_writes (handleDeposit pu wt skip v) = []"
  by (simp add: handleDeposit_def balance_writes_handleApprove split: option.splits)

lemma balance_writes_handleWithdraw: "balance_writes (handleWithdraw pu wt v) = []"
  by (simp add: handleWithdraw_def split: option.splits)

lemma approvals_handleDeposit:
  "set (approvals (handleDeposit pu wt skip v)) \<subseteq> {maxUint256}"
  by (simp add: handleDeposit_def handleApprove_def split: option.splits)

text \<open>With \<open>skipApprovalCheck\<close> set, line 128 is false whatever the allowance is, and the
  handler is the deposit branch alone.\<close>

lemma handleDeposit_skip:
  "handleDeposit pu wt True v =
     (if amount v = [] \<or> \<not> publicClient v then []
      else case pu (amount v) of
             None \<Rightarrow> [ConsoleError ''Error depositing:'', SetIsLoading False, SetProgress 0]
           | Some a \<Rightarrow> [SetIsLoading True, SetProgress 25, Deposit a] @
               (if wt then [ConsoleError ''Error depositing:'', SetIsLoading False, SetProgress 0]
                else []))"
  by (simp add: handleDeposit_def needsApproval_def split: option.splits)

lemma approvals_handleDeposit_skip: "approvals (handleDeposit pu wt True v) = []"
  by (simp add: handleDeposit_skip split: option.splits)

lemma deposits_handleDeposit_skip_le: "length (deposits (handleDeposit pu wt True v)) \<le> 1"
  by (simp add: handleDeposit_skip split: option.splits)

text \<open>Where the write call itself throws, the \<open>catch\<close> block of each handler clears the
  indicator.\<close>

lemma write_throw_clears:
  assumes "amount v \<noteq> []" and "publicClient v"
  shows "\<not> isLoading (run (handleApprove True v) st) \<and>
         progress (run (handleApprove True v) st) = 0 \<and>
         \<not> isLoading (run (handleDeposit pu True skip v) st) \<and>
         progress (run (handleDeposit pu True skip v) st) = 0 \<and>
         \<not> isLoading (run (handleWithdraw pu True v) st) \<and>
         progress (run (handleWithdraw pu True v) st) = 0"
  using assms
  by (simp add: handleApprove_def handleDeposit_def handleWithdraw_def split: option.splits)

text \<open>\<open>isApproved\<close> is written by the effect of lines 62-69 and by nothing else.\<close>

lemma isApproved_written_by_effect_only:
  "approved_writes (handleApprove wt v) = [] \<and>
   approved_writes (handleDeposit pu wt skip v) = [] \<and>
   approved_writes (handleWithdraw pu wt v) = [] \<and>
   approved_writes (handleGetBalance fmt r v) = [] \<and>
   approved_writes (connectEffect fmt r v) = [] \<and>
   approved_writes (balanceEffect fmt v) = [] \<and>
   approved_writes (fst (waitForTransaction v h w)) = [] \<and>
   approved_writes (depositConfirmEffect w v) = [] \<and>
   approved_writes (withdrawConfirmEffect w v) = []"
  by (simp add: handleApprove_def handleDeposit_def handleWithdraw_def handleGetBalance_def
      connectEffect_def balanceEffect_def waitForTransaction_def depositConfirmEffect_def
      withdrawConfirmEffect_def split: option.splits wait_result.splits)

lemma approved_writes_approveConfirmEffect:
  "approved_writes (approveConfirmEffect pu wt w v) = []"
  by (simp add: approveConfirmEffect_def waitForTransaction_def handleDeposit_skip
      approved_writes_append split: option.splits wait_result.splits)

lemma approvedEffect_unobserved: "allowance v = None \<Longrightarrow> approvedEffect pu v = Some []"
  by (simp add: approvedEffect_def)

text \<open>A deposit or a withdrawal whose hash was reported ends, whatever the wait does, with
  the indicator cleared; after a returned receipt it also refetches the balance and
  empties the amount.\<close>

lemma confirmation_clears:
  "depositHash v = Some h \<Longrightarrow> h \<noteq> [] \<Longrightarrow> depositSuccess v \<Longrightarrow>
     \<not> isLoading (run (depositConfirmEffect w v) st) \<and>
     progress (run (depositConfirmEffect w v) st) = 0"
  "withdrawHash v = Some h \<Longrightarrow> h \<noteq> [] \<Longrightarrow> withdrawSuccess v \<Longrightarrow>
     \<not> isLoading (run (withdrawConfirmEffect w v) st) \<and>
     progress (run (withdrawConfirmEffect w v) st) = 0"
  by (simp_all add: depositConfirmEffect_def withdrawConfirmEffect_def waitForTransaction_def
      split: wait_result.splits)

lemma confirmed_refetches_and_empties:
  "depositHash v = Some h \<Longrightarrow> h \<noteq> [] \<Longrightarrow> depositSuccess v \<Longrightarrow>
     depositConfirmEffect (Receipt s) v
       = fst (waitForTransaction v h (Receipt s)) @ [RefetchBalance, SetAmount []] \<and>
     amount (run (depositConfirmEffect (Receipt s) v) st) = []"
  "withdrawHash v = Some h \<Longrightarrow> h \<noteq> [] \<Longrightarrow> withdrawSuccess v \<Longrightarrow>
     withdrawConfirmEffect (Receipt s) v
       = fst (waitForTransaction v h (Receipt s)) @ [RefetchBalance, SetAmount []] \<and>
     amount (run (withdrawConfirmEffect (Receipt s) v) st) = []"
  by (simp_all add: depositConfirmEffect_def withdrawConfirmEffect_def waitForTransaction_def)

text \<open>The approval continuation, by what the wait does. After a returned receipt of
  either status: the wait, the refetch of the allowance, then \<open>handleDeposit(true)\<close>.
  After a wait that raised: the wait alone. Without a public client nothing is awaited
  and \<open>handleDeposit(true)\<close> returns at its first line.\<close>

lemma approveConfirmEffect_receipt:
  "approveHash v = Some h \<Longrightarrow> h \<noteq> [] \<Longrightarrow> approveSuccess v \<Longrightarrow>
   approveConfirmEffect pu wt (Receipt s) v =
     fst (waitForTransaction v h (Receipt s)) @ RefetchAllowance # handleDeposit pu wt True v"
  by (simp add: approveConfirmEffect_def waitForTransaction_def)

lemma approveConfirmEffect_raised:
  "approveHash v = Some h \<Longrightarrow> h \<noteq> [] \<Longrightarrow> approveSuccess v \<Longrightarrow> publicClient v \<Longrightarrow>
   approveConfirmEffect pu wt WaitError v =
     [SetProgress 50, WaitForTransactionReceipt h, WaitFailed h,
      ConsoleError ''Transaction failed:'', SetProgress 0, SetIsLoading False]"
  by (simp add: approveConfirmEffect_def waitForTransaction_def)

lemma approveConfirmEffect_no_client:
  "approveHash v = Some h \<Longrightarrow> h \<noteq> [] \<Longrightarrow> approveSuccess v \<Longrightarrow> \<not> publicClient v \<Longrightarrow>
   approveConfirmEffect pu wt w v =
     [SetProgress 50, SetProgress 100, Timeout 500, SetProgress 0, SetIsLoading False,
      RefetchAllowance]"
  by (simp add: approveConfirmEffect_def waitForTransaction_def handleDeposit_def)

lemma approveConfirmEffect_idle:
  "approveHash v = None \<or> approveHash v = Some [] \<or> \<not> approveSuccess v \<Longrightarrow>
   approveConfirmEffect pu wt w v = []"
  by (auto simp: approveConfirmEffect_def split: option.splits)

lemma approvals_approveConfirmEffect: "approvals (approveConfirmEffect pu wt w v) = []"
  by (simp add: approveConfirmEffect_def waitForTransaction_def approvals_append
      approvals_handleDeposit_skip split: option.splits wait_result.splits)

lemma deposits_approveConfirmEffect_le:
  "length (deposits (approveConfirmEffect pu wt w v)) \<le> 1"
  using deposits_handleDeposit_skip_le [of pu wt v]
  by (simp add: approveConfirmEffect_def waitForTransaction_def deposits_append
      split: option.splits wait_result.splits)

text \<open>With an allowance that has been read, the render that follows the effect of lines
  62-69 has \<open>isApproved\<close> equal to \<open>allowance >= parseUnits(amount, 18)\<close>, and line 128
  asks for the approval exactly when the allowance is below the amount.\<close>

lemma decision_for_observed_allowance:
  assumes "allowance v = Some h" and "amount v \<noteq> []" and "pu (amount v) = Some a"
  shows "afterApprovedEffect pu v = Some (v\<lparr>isApproved := a \<le> h\<rparr>)"
    and "needsApproval False (isApproved (v\<lparr>isApproved := a \<le> h\<rparr>))
           (allowance (v\<lparr>isApproved := a \<le> h\<rparr>)) a = (h < a)"
    and "publicClient v \<Longrightarrow>
         deposits (handleDeposit pu wt False (v\<lparr>isApproved := a \<le> h\<rparr>))
           = (if a \<le> h then [a] else [])"
    and "publicClient v \<Longrightarrow>
         approvals (handleDeposit pu wt False (v\<lparr>isApproved := a \<le> h\<rparr>))
           = (if a \<le> h then [] else [maxUint256])"
  using assms
  by (auto simp: afterApprovedEffect_def approvedEffect_def needsApproval_def
      handleDeposit_def handleApprove_def)

text \<open>Before any allowance has been read, \<open>isApproved\<close> has its initial value and a
  deposit asks for the approval first.\<close>

lemma decision_before_first_read:
  assumes "allowance v = None" and "isApproved v = isApproved initial"
      and "amount v \<noteq> []" and "publicClient v" and "pu (amount v) = Some a"
  shows "approvals (handleDeposit pu wt False v) = [maxUint256]"
    and "deposits (handleDeposit pu wt False v) = []"
  using assms
  by (auto simp: needsApproval_def handleDeposit_def handleApprove_def initial_def)

subsection \<open>One deposit that needs an approval, from click to submission\<close>

lemma approve_mined_follows_click:
  "writeSettled ApproveWrite (Some ''0xa1'')
     (run (clickDeposit parseUnits18 False view_unapproved) view_unapproved)
   = view_approve_mined"
  by (simp add: clickDeposit_def handleDeposit_def handleApprove_def needsApproval_def
      view_approve_mined_def view_unapproved_def initial_def parseUnits18_10)

lemma deposit_flow_trace:
  "clickDeposit parseUnits18 False view_unapproved @
   approveConfirmEffect parseUnits18 False (Receipt Success) view_approve_mined
   = [SetIsLoading True, SetProgress 10, Approve maxUint256, SetProgress 50,
      WaitForTransactionReceipt ''0xa1'', ReceiptReturned ''0xa1'' Success, SetProgress 100,
      Timeout 500,
      SetProgress 0, SetIsLoading False, RefetchAllowance, SetIsLoading True, SetProgress 25,
      Deposit 10000000000000000000]"
  by (simp add: clickDeposit_def handleDeposit_def handleApprove_def approveConfirmEffect_def
      waitForTransaction_def needsApproval_def view_approve_mined_def view_unapproved_def
      initial_def parseUnits18_10)

subsection \<open>An account switch, step by step\<close>

text \<open>The first account connects and its allowance is read; \<open>10\<close> is typed; the wallet
  changes to the second account. After each step the effect of lines 62-69 runs.\<close>

lemma account_switch_steps:
  "afterApprovedEffect parseUnits18
     (allowanceRead maxUint256
        (accountChanged (Some ''0xa11ce'') (initial\<lparr>publicClient := True\<rparr>)))
     = Some view_first_account"
  "afterApprovedEffect parseUnits18 (apply_event (SetAmount ''10'') view_first_account)
     = Some view_first_account_typed"
  "afterApprovedEffect parseUnits18 (accountChanged (Some ''0xb0b'') view_first_account_typed)
     = Some view_switched"
  by (simp_all add: afterApprovedEffect_def approvedEffect_def allowanceRead_def
      accountChanged_def view_first_account_def view_first_account_typed_def
      view_switched_def initial_def parseUnits18_10 maxUint256_value)

subsection \<open>An approval that was mined and reverted\<close>

lemma reverted_approval_trace:
  "approveConfirmEffect parseUnits18 False (Receipt Reverted) view_approve_mined
   = [SetProgress 50, WaitForTransactionReceipt ''0xa1'', ReceiptReturned ''0xa1'' Reverted,
      SetProgress 100, Timeout 500, SetProgress 0, SetIsLoading False, RefetchAllowance,
      SetIsLoading True, SetProgress 25, Deposit 10000000000000000000]"
  by (simp add: approveConfirmEffect_def waitForTransaction_def handleDeposit_skip
      view_approve_mined_def view_unapproved_def initial_def parseUnits18_10)

section \<open>The authorization decision\<close>

text \<open>
  Claim C1 holds where an allowance has been read (\<open>decision_for_observed_allowance\<close>:
  sufficient exactly when \<open>h \<ge> a\<close>) and before the first read
  (\<open>decision_before_first_read\<close>), but not for every unknown headroom. The effect of
  lines 62-69 has a branch for an allowance with an amount and one for an allowance
  without, and none for an undefined allowance, so nothing puts \<open>isApproved\<close> back to
  \<open>false\<close> when the allowance becomes unknown again. With the allowance undefined, line
  128 is decided by \<open>isApproved\<close> alone: if it is still \<open>true\<close>, the effect leaves the
  render as it is, line 128 asks for no approval and \<open>handleDeposit\<close> calls the deposit
  write at once. Such a render is reached by the steps of \<open>account_switch_steps\<close>: a
  first account with the maximal allowance, \<open>10\<close> typed, then the wallet changes to a
  second account, whose allowance has not been read. There a click on Deposit submits
  the deposit of ten tokens with no approval.
\<close>

theorem C1_stale_approval_after_account_switch:
  "(allowance v = None \<and> isApproved v \<and> amount v \<noteq> [] \<and> publicClient v \<and>
    pu (amount v) = Some a \<longrightarrow>
      afterApprovedEffect pu v = Some v \<and>
      \<not> needsApproval False (isApproved v) (allowance v) a \<and>
      approvals (handleDeposit pu wt False v) = [] \<and>
      deposits (handleDeposit pu wt False v) = [a]) \<and>
   afterApprovedEffect parseUnits18
     (allowanceRead maxUint256
        (accountChanged (Some ''0xa11ce'') (initial\<lparr>publicClient := True\<rparr>)))
     = Some view_first_account \<and>
   afterApprovedEffect parseUnits18 (apply_event (SetAmount ''10'') view_first_account)
     = Some view_first_account_typed \<and>
   afterApprovedEffect parseUnits18 (accountChanged (Some ''0xb0b'') view_first_account_typed)
     = Some view_switched \<and>
   allowance view_switched = None \<and>
   clickDeposit parseUnits18 False view_switched
     = [SetIsLoading True, SetProgress 25, Deposit 10000000000000000000]"
proof -
  have stale: "allowance v = None \<and> isApproved v \<and> amount v \<noteq> [] \<and> publicClient v \<and>
      pu (amount v) = Some a \<Longrightarrow>
        afterApprovedEffect pu v = Some v \<and>
        \<not> needsApproval False (isApproved v) (allowance v) a \<and>
        approvals (handleDeposit pu wt False v) = [] \<and>
        deposits (handleDeposit pu wt False v) = [a]"
    by (simp add: afterApprovedEffect_def approvedEffect_def needsApproval_def
        handleDeposit_def)
  have unknown: "allowance view_switched = None"
    by (simp add: view_switched_def)
  have click: "clickDeposit parseUnits18 False view_switched
      = [SetIsLoading True, SetProgress 25, Deposit 10000000000000000000]"
    by (simp add: clickDeposit_def handleDeposit_def needsApproval_def view_switched_def
        view_first_account_typed_def view_first_account_def initial_def parseUnits18_10)
  show ?thesis
    using stale account_switch_steps unknown click by blast
qed

theorem C1_witness:
  "allowance view_switched = None \<and> isApproved view_switched \<and>
   amount view_switched \<noteq> [] \<and> publicClient view_switched \<and>
   parseUnits18 (amount view_switched) = Some 10000000000000000000 \<and>
   approvals (handleDeposit parseUnits18 False False view_switched) = [] \<and>
   deposits (handleDeposit parseUnits18 False False view_switched) = [10000000000000000000]"
proof -
  have h: "allowance view_switched = None \<and> isApproved view_switched \<and>
      amount view_switched \<noteq> [] \<and> publicClient view_switched \<and>
      parseUnits18 (amount view_switched) = Some 10000000000000000000"
    by (simp add: view_switched_def view_first_account_typed_def view_first_account_def
        initial_def parseUnits18_10)
  show ?thesis
    using h C1_stale_approval_after_account_switch [where v = view_switched
        and pu = parseUnits18 and a = 10000000000000000000 and wt = False]
    by blast
qed

section \<open>The deposit follows the approval's confirmation\<close>

text \<open>
  Claim C2 holds where the allowance has been read and is below the amount, and fails
  for the unknown allowance of claim C1. With a public client, a non-empty amount that
  parses to \<open>a\<close> and an allowance \<open>g < a\<close>, the render after the effect of lines 62-69
  has \<open>isApproved\<close> false; there \<open>handleDeposit\<close> calls the approval write, for the
  maximal amount, and no deposit write. The deposit of that flow comes from the effect
  of lines 167-175, after the awaited receipt of the approval's hash: in the trace of the
  click followed by that effect no deposit precedes the return of that receipt, there is
  none at all when the wait raises, and after a receipt the deposit of the amount of that
  render follows. But after an account switch that leaves the allowance undefined and
  \<open>isApproved\<close> true, the authorization of the new account is not known to be
  sufficient and a click on Deposit calls the deposit write with no approval before it.
\<close>

theorem C2_deposit_order:
  "(allowance v = Some g \<and> g < a \<and> amount v \<noteq> [] \<and> publicClient v \<and>
    pu (amount v) = Some a \<and> approveHash v' = Some h \<longrightarrow>
      afterApprovedEffect pu v = Some (v\<lparr>isApproved := False\<rparr>) \<and>
      approvals (handleDeposit pu wt False (v\<lparr>isApproved := False\<rparr>)) = [maxUint256] \<and>
      deposits (handleDeposit pu wt False (v\<lparr>isApproved := False\<rparr>)) = [] \<and>
      deposits (takeWhile (\<lambda>e. \<not> is_receipt_of h e)
        (handleDeposit pu wt False (v\<lparr>isApproved := False\<rparr>) @
         approveConfirmEffect pu wt' w v')) = [] \<and>
      (w = WaitError \<longrightarrow>
         deposits (handleDeposit pu wt False (v\<lparr>isApproved := False\<rparr>) @
                   approveConfirmEffect pu wt' w v') = []) \<and>
      (w \<noteq> WaitError \<and> approveSuccess v' \<and> h \<noteq> [] \<and> amount v' \<noteq> [] \<and> publicClient v' \<and>
       pu (amount v') = Some a' \<longrightarrow>
         deposits (handleDeposit pu wt False (v\<lparr>isApproved := False\<rparr>) @
                   approveConfirmEffect pu wt' w v') = [a'])) \<and>
   (allowance u = None \<and> isApproved u \<and> isConnected u \<and> \<not> isLoading u \<and>
    amount u \<noteq> [] \<and> publicClient u \<and> pu (amount u) = Some c \<longrightarrow>
      approvals (clickDeposit pu wt u) = [] \<and>
      deposits (clickDeposit pu wt u) = [c])"
proof -
  have observed: ?thesis
    if hyp: "allowance v = Some g \<and> g < a \<and> amount v \<noteq> [] \<and> publicClient v \<and>
      pu (amount v) = Some a \<and> approveHash v' = Some h"
      and stale: "allowance u = None \<and> isApproved u \<and> isConnected u \<and> \<not> isLoading u \<and>
        amount u \<noteq> [] \<and> publicClient u \<and> pu (amount u) = Some c \<Longrightarrow>
        approvals (clickDeposit pu wt u) = [] \<and> deposits (clickDeposit pu wt u) = [c]"
  proof -
    let ?u = "v\<lparr>isApproved := False\<rparr>"
    have settled: "afterApprovedEffect pu v = Some ?u"
      using hyp by (simp add: afterApprovedEffect_def approvedEffect_def)
    have first: "handleDeposit pu wt False ?u = handleApprove wt ?u"
      using hyp by (simp add: handleDeposit_def needsApproval_def)
    have appr: "approvals (handleApprove wt ?u) = [maxUint256]"
      using hyp by (simp add: handleApprove_def)
    have dep0: "deposits (handleApprove wt ?u) = []"
      by (rule deposits_handleApprove)
    have none: "\<forall>e \<in> set (handleApprove wt ?u). \<not> is_receipt_of h e"
      by (auto simp: handleApprove_def)
    have tw: "takeWhile (\<lambda>e. \<not> is_receipt_of h e)
          (handleApprove wt ?u @ approveConfirmEffect pu wt' w v')
        = handleApprove wt ?u @
          takeWhile (\<lambda>e. \<not> is_receipt_of h e) (approveConfirmEffect pu wt' w v')"
      using none by simp
    have before: "deposits (takeWhile (\<lambda>e. \<not> is_receipt_of h e)
        (approveConfirmEffect pu wt' w v')) = []"
      using hyp
      by (simp add: approveConfirmEffect_def waitForTransaction_def handleDeposit_def
          split: wait_result.splits)
    have fail: "w = WaitError \<Longrightarrow> deposits (approveConfirmEffect pu wt' w v') = []"
      using hyp
      by (simp add: approveConfirmEffect_def waitForTransaction_def handleDeposit_def)
    have after: "w \<noteq> WaitError \<and> approveSuccess v' \<and> h \<noteq> [] \<and> amount v' \<noteq> [] \<and>
        publicClient v' \<and> pu (amount v') = Some a' \<Longrightarrow>
        deposits (approveConfirmEffect pu wt' w v') = [a']"
      using hyp
      by (cases w)
        (simp_all add: approveConfirmEffect_def waitForTransaction_def handleDeposit_skip)
    show ?thesis
      using settled first appr dep0 tw before fail after stale
      by (simp add: deposits_append)
  qed
  have stale: "allowance u = None \<and> isApproved u \<and> isConnected u \<and> \<not> isLoading u \<and>
      amount u \<noteq> [] \<and> publicClient u \<and> pu (amount u) = Some c \<Longrightarrow>
      approvals (clickDeposit pu wt u) = [] \<and> deposits (clickDeposit pu wt u) = [c]"
    by (simp add: clickDeposit_def handleDeposit_def needsApproval_def)
  show ?thesis
  proof (cases "allowance v = Some g \<and> g < a \<and> amount v \<noteq> [] \<and> publicClient v \<and>
      pu (amount v) = Some a \<and> approveHash v' = Some h")
    case True
    then show ?thesis using observed stale by blast
  next
    case False
    then show ?thesis using stale by blast
  qed
qed

theorem C2_witness:
  "allowance view_unapproved = Some 0 \<and> (0::int) < 10000000000000000000 \<and>
   amount view_unapproved \<noteq> [] \<and> publicClient view_unapproved \<and>
   parseUnits18 (amount view_unapproved) = Some 10000000000000000000 \<and>
   approveHash view_approve_mined = Some ''0xa1'' \<and>
   approvals (handleDeposit parseUnits18 False False (view_unapproved\<lparr>isApproved := False\<rparr>))
     = [maxUint256] \<and>
   deposits (takeWhile (\<lambda>e. \<not> is_receipt_of ''0xa1'' e)
     (handleDeposit parseUnits18 False False (view_unapproved\<lparr>isApproved := False\<rparr>) @
      approveConfirmEffect parseUnits18 False (Receipt Success) view_approve_mined)) = [] \<and>
   deposits
     (handleDeposit parseUnits18 False False (view_unapproved\<lparr>isApproved := False\<rparr>) @
      approveConfirmEffect parseUnits18 False (Receipt Success) view_approve_mined)
     = [10000000000000000000] \<and>
   allowance view_switched = None \<and> isApproved view_switched \<and>
   isConnected view_switched \<and> \<not> isLoading view_switched \<and>
   approvals (clickDeposit parseUnits18 False view_switched) = [] \<and>
   deposits (clickDeposit parseUnits18 False view_switched) = [10000000000000000000]"
proof -
  have h1: "allowance view_unapproved = Some 0 \<and> (0::int) < 10000000000000000000 \<and>
      amount view_unapproved \<noteq> [] \<and> publicClient view_unapproved \<and>
      parseUnits18 (amount view_unapproved) = Some 10000000000000000000 \<and>
      approveHash view_approve_mined = Some ''0xa1''"
    by (simp add: view_unapproved_def view_approve_mined_def parseUnits18_10)
  have h2: "Receipt Success \<noteq> WaitError \<and> approveSuccess view_approve_mined \<and>
      ''0xa1'' \<noteq> [] \<and> amount view_approve_mined \<noteq> [] \<and> publicClient view_approve_mined \<and>
      parseUnits18 (amount view_approve_mined) = Some 10000000000000000000"
    by (simp add: view_approve_mined_def view_unapproved_def parseUnits18_10)
  have h3: "allowance view_switched = None \<and> isApproved view_switched \<and>
      isConnected view_switched \<and> \<not> isLoading view_switched \<and>
      amount view_switched \<noteq> [] \<and> publicClient view_switched \<and>
      parseUnits18 (amount view_switched) = Some 10000000000000000000"
    by (simp add: view_switched_def view_first_account_typed_def view_first_account_def
        initial_def parseUnits18_10)
  show ?thesis
    using h1 h2 h3
      C2_deposit_order [where pu = parseUnits18 and v = view_unapproved and g = 0
        and a = 10000000000000000000 and v' = view_approve_mined and h = "''0xa1''"
        and w = "Receipt Success" and a' = 10000000000000000000 and wt = False
        and wt' = False and u = view_switched and c = 10000000000000000000]
    by blast
qed

section \<open>A pending operation and a second request\<close>

text \<open>
  Claim C3, as stated, fails on the handlers. Neither \<open>handleWithdraw\<close> nor
  \<open>handleDeposit\<close> reads \<open>isLoading\<close> or any other sign of a pending operation, and
  neither raises an error: called again in the state the first call left, with the
  withdrawal still unconfirmed, \<open>handleWithdraw\<close> submits the same withdrawal a second
  time, and \<open>handleDeposit\<close> called while an approval is pending submits another
  approval.
\<close>

theorem C3_counterexample:
  "isLoading (run (handleWithdraw parseUnits18 False
       (initial\<lparr>amount := ''10'', publicClient := True\<rparr>))
       (initial\<lparr>amount := ''10'', publicClient := True\<rparr>)) \<and>
   handleWithdraw parseUnits18 False
     (run (handleWithdraw parseUnits18 False
       (initial\<lparr>amount := ''10'', publicClient := True\<rparr>))
       (initial\<lparr>amount := ''10'', publicClient := True\<rparr>))
     = [SetIsLoading True, SetProgress 25, Withdraw 10000000000000000000] \<and>
   handleDeposit parseUnits18 False False
     (initial\<lparr>amount := ''10'', publicClient := True, allowance := Some 0,
        isLoading := True, progress := 10\<rparr>)
     = [SetIsLoading True, SetProgress 10, Approve maxUint256]"
  by (simp add: handleWithdraw_def handleDeposit_def handleApprove_def needsApproval_def
      initial_def parseUnits18_10)

text \<open>
  Claim C3, amended. The guard is in the buttons (lines 242-255), not in the handlers:
  while \<open>isLoading\<close> is set both buttons are disabled, so a click calls no handler,
  submits nothing and changes no state, and no error is raised for it. Every handler
  that submits without throwing has set \<open>isLoading\<close> before its write call, so the
  buttons are disabled from the submission on. The handlers themselves do not depend on
  \<open>isLoading\<close>.
\<close>

theorem C3_disabled_while_loading:
  "(isLoading v \<longrightarrow> clickDeposit pu wt v = [] \<and> clickWithdraw pu wt v = []) \<and>
   (withdrawals (handleWithdraw pu False v) \<noteq> [] \<longrightarrow>
      isLoading (run (handleWithdraw pu False v) st)) \<and>
   (approvals (handleDeposit pu False skip v) @ deposits (handleDeposit pu False skip v) \<noteq> []
      \<longrightarrow> isLoading (run (handleDeposit pu False skip v) st)) \<and>
   handleWithdraw pu wt (v\<lparr>isLoading := b\<rparr>) = handleWithdraw pu wt v \<and>
   handleDeposit pu wt skip (v\<lparr>isLoading := b\<rparr>) = handleDeposit pu wt skip v"
  by (auto simp: clickDeposit_def clickWithdraw_def handleWithdraw_def handleDeposit_def
      handleApprove_def split: option.splits)

theorem C3_witness:
  "withdrawals (handleWithdraw parseUnits18 False view_unapproved) \<noteq> [] \<and>
   isLoading (run (handleWithdraw parseUnits18 False view_unapproved) view_unapproved) \<and>
   clickWithdraw parseUnits18 False
     (run (handleWithdraw parseUnits18 False view_unapproved) view_unapproved) = [] \<and>
   clickDeposit parseUnits18 False
     (run (handleWithdraw parseUnits18 False view_unapproved) view_unapproved) = []"
proof -
  have h: "withdrawals (handleWithdraw parseUnits18 False view_unapproved) \<noteq> []"
    by (simp add: handleWithdraw_def view_unapproved_def parseUnits18_10)
  have l: "isLoading (run (handleWithdraw parseUnits18 False view_unapproved) view_unapproved)"
    using h C3_disabled_while_loading [where pu = parseUnits18 and v = view_unapproved
        and st = view_unapproved]
    by blast
  show ?thesis
    using h l C3_disabled_while_loading [where pu = parseUnits18 and wt = False
        and v = "run (handleWithdraw parseUnits18 False view_unapproved) view_unapproved"]
    by blast
qed

section \<open>Amounts that are not positive token amounts\<close>

text \<open>
  Claim C4, as stated, fails for amounts that parse but are not positive. The handlers
  test only that the input is not empty. For the input \<open>-5\<close>, \<open>handleWithdraw\<close> calls
  the withdraw write with minus five tokens; and once the effect of lines 62-69 has found
  any allowance to be at least that negative amount, \<open>handleDeposit\<close> calls the deposit
  write with it.
\<close>

theorem C4_counterexample:
  "handleWithdraw parseUnits18 False (initial\<lparr>amount := ''-5'', publicClient := True\<rparr>)
     = [SetIsLoading True, SetProgress 25, Withdraw (- 5000000000000000000)] \<and>
   afterApprovedEffect parseUnits18
       (initial\<lparr>amount := ''-5'', publicClient := True, allowance := Some 0\<rparr>)
     = Some (initial\<lparr>amount := ''-5'', publicClient := True, allowance := Some 0,
               isApproved := True\<rparr>) \<and>
   handleDeposit parseUnits18 False False
       (initial\<lparr>amount := ''-5'', publicClient := True, allowance := Some 0,
          isApproved := True\<rparr>)
     = [SetIsLoading True, SetProgress 25, Deposit (- 5000000000000000000)]"
  by (simp add: handleWithdraw_def handleDeposit_def needsApproval_def afterApprovedEffect_def
      approvedEffect_def initial_def parseUnits18_minus5)

text \<open>
  Claim C4, amended. With an empty amount or without a public client both handlers
  return at once: no call of any kind, no state change, no error. With a public client
  and a non-empty amount that \<open>parseUnits\<close> rejects, neither handler makes a ledger call
  (no submission, no read): the exception is caught and logged with \<open>console.error\<close>,
  not raised, and the loading flag and the progress are put back to false and zero. With
  a public client and a non-empty amount that \<open>parseUnits\<close> accepts, whatever its sign,
  \<open>handleWithdraw\<close> calls the withdraw write with the parsed amount, and
  \<open>handleDeposit\<close> calls the approve write for the maximal amount where line 128 asks
  for the approval and otherwise the deposit write with the parsed amount.
\<close>

theorem C4_unparseable_not_submitted:
  "(amount v = [] \<or> \<not> publicClient v \<longrightarrow>
      handleDeposit pu wt skip v = [] \<and> handleWithdraw pu wt v = []) \<and>
   (amount v \<noteq> [] \<and> publicClient v \<and> pu (amount v) = None \<longrightarrow>
      handleDeposit pu wt skip v
        = [ConsoleError ''Error depositing:'', SetIsLoading False, SetProgress 0] \<and>
      handleWithdraw pu wt v
        = [SetIsLoading True, SetProgress 25, ConsoleError ''Error withdrawing:'',
           SetIsLoading False, SetProgress 0] \<and>
      filter is_ledger_call (handleDeposit pu wt skip v) = [] \<and>
      filter is_ledger_call (handleWithdraw pu wt v) = [] \<and>
      \<not> isLoading (run (handleDeposit pu wt skip v) st) \<and>
      progress (run (handleDeposit pu wt skip v) st) = 0 \<and>
      \<not> isLoading (run (handleWithdraw pu wt v) st) \<and>
      progress (run (handleWithdraw pu wt v) st) = 0) \<and>
   (amount v \<noteq> [] \<and> publicClient v \<and> pu (amount v) = Some a \<longrightarrow>
      withdrawals (handleWithdraw pu wt v) = [a] \<and>
      approvals (handleWithdraw pu wt v) = [] \<and>
      deposits (handleWithdraw pu wt v) = [] \<and>
      withdrawals (handleDeposit pu wt skip v) = [] \<and>
      approvals (handleDeposit pu wt skip v)
        = (if needsApproval skip (isApproved v) (allowance v) a then [maxUint256] else []) \<and>
      deposits (handleDeposit pu wt skip v)
        = (if needsApproval skip (isApproved v) (allowance v) a then [] else [a]))"
  by (simp add: handleDeposit_def handleWithdraw_def handleApprove_def)

theorem C4_witness:
  "amount (initial\<lparr>amount := ''abc'', publicClient := True\<rparr>) \<noteq> [] \<and>
   publicClient (initial\<lparr>amount := ''abc'', publicClient := True\<rparr>) \<and>
   parseUnits18 (amount (initial\<lparr>amount := ''abc'', publicClient := True\<rparr>)) = None \<and>
   handleWithdraw parseUnits18 False (initial\<lparr>amount := ''abc'', publicClient := True\<rparr>)
     = [SetIsLoading True, SetProgress 25, ConsoleError ''Error withdrawing:'',
        SetIsLoading False, SetProgress 0] \<and>
   handleDeposit parseUnits18 False False (initial\<lparr>amount := ''abc'', publicClient := True\<rparr>)
     = [ConsoleError ''Error depositing:'', SetIsLoading False, SetProgress 0] \<and>
   amount initial = [] \<and> handleWithdraw parseUnits18 False initial = [] \<and>
   amount (initial\<lparr>amount := ''-5'', publicClient := True\<rparr>) \<noteq> [] \<and>
   publicClient (initial\<lparr>amount := ''-5'', publicClient := True\<rparr>) \<and>
   parseUnits18 (amount (initial\<lparr>amount := ''-5'', publicClient := True\<rparr>))
     = Some (- 5000000000000000000) \<and>
   withdrawals (handleWithdraw parseUnits18 False
      (initial\<lparr>amount := ''-5'', publicClient := True\<rparr>)) = [- 5000000000000000000]"
proof -
  have h1: "amount (initial\<lparr>amount := ''abc'', publicClient := True\<rparr>) \<noteq> [] \<and>
      publicClient (initial\<lparr>amount := ''abc'', publicClient := True\<rparr>) \<and>
      parseUnits18 (amount (initial\<lparr>amount := ''abc'', publicClient := True\<rparr>)) = None"
    by (simp add: parseUnits18_abc)
  have h2: "amount initial = []"
    by (simp add: initial_def)
  have h3: "amount (initial\<lparr>amount := ''-5'', publicClient := True\<rparr>) \<noteq> [] \<and>
      publicClient (initial\<lparr>amount := ''-5'', publicClient := True\<rparr>) \<and>
      parseUnits18 (amount (initial\<lparr>amount := ''-5'', publicClient := True\<rparr>))
        = Some (- 5000000000000000000)"
    by (simp add: parseUnits18_minus5)
  show ?thesis
    using h1 h2 h3
      C4_unparseable_not_submitted
        [where v = "initial\<lparr>amount := ''abc'', publicClient := True\<rparr>"
          and pu = parseUnits18 and wt = False and skip = False]
      C4_unparseable_not_submitted [where v = initial and pu = parseUnits18 and wt = False]
      C4_unparseable_not_submitted
        [where v = "initial\<lparr>amount := ''-5'', publicClient := True\<rparr>"
          and pu = parseUnits18 and wt = False and a = "- 5000000000000000000"]
    by blast
qed

section \<open>The cached balance and allowance\<close>

text \<open>
  Claim C5, as stated, fails for the balance display: it is also overwritten without
  any read. When the account disconnects, the effect of lines 44-50 empties the display
  (line 48) and calls nothing on the ledger. For the account that shows its seven
  tokens, the display goes from \<open>7.000000\<close> to the empty string.
\<close>

theorem C5_counterexample:
  "balance view_seven = ''7.000000'' \<and>
   connectEffect display_seven None (accountChanged None view_seven) = [SetBalance []] \<and>
   filter is_ledger_call (connectEffect display_seven None (accountChanged None view_seven))
     = [] \<and>
   balance (run (connectEffect display_seven None (accountChanged None view_seven))
       (accountChanged None view_seven)) = []"
  by (simp add: connectEffect_def accountChanged_def view_seven_def initial_def
      truthy_string_def)

text \<open>
  Claim C5, amended. The cached balance is the read \<open>bankBalance\<close> with its display
  string \<open>balance\<close>, the headroom is the read \<open>allowance\<close>. The component has no setter
  for the two reads: whatever it calls leaves them as the hooks reported them. At
  submission time nothing is written and nothing is read: \<open>handleApprove\<close>,
  \<open>handleDeposit\<close> and \<open>handleWithdraw\<close> neither write the display nor refetch a read,
  and the three confirmation effects do not write the display either. The display is
  written in three places only: by the effect of lines 52-59 from a \<open>bankBalance\<close> that
  is not zero, by \<open>handleGetBalance\<close> after its refetch has returned, from the
  \<open>bankBalance\<close> of the render that created it, and by the effect of lines 44-50, which
  empties it on disconnect. When the wait for a withdrawal's receipt raises, the effect
  ends after the \<open>finally\<close> block: the display and the amount are as before, the loading
  flag is down and the progress zero, and on a connected account a click on Withdraw
  calls the withdraw write with the same amount again.
\<close>

theorem C5_cache_written_where:
  "bankBalance (run es st) = bankBalance st \<and> allowance (run es st) = allowance st \<and>
   balance_writes (handleApprove wt v) = [] \<and>
   balance_writes (handleDeposit pu wt skip v) = [] \<and>
   balance_writes (handleWithdraw pu wt v) = [] \<and>
   filter is_refetch (handleApprove wt v) = [] \<and>
   filter is_refetch (handleDeposit pu wt skip v) = [] \<and>
   filter is_refetch (handleWithdraw pu wt v) = [] \<and>
   balance_writes (approveConfirmEffect pu wt w v) = [] \<and>
   balance_writes (depositConfirmEffect w v) = [] \<and>
   balance_writes (withdrawConfirmEffect w v) = [] \<and>
   balance_writes (balanceEffect fmt v)
     = (case bankBalance v of None \<Rightarrow> [] | Some b \<Rightarrow> if b \<noteq> 0 then [fmt b] else []) \<and>
   balance_writes (handleGetBalance fmt r v)
     = (case r of
          None \<Rightarrow> []
        | Some x \<Rightarrow>
            (case bankBalance v of None \<Rightarrow> [] | Some b \<Rightarrow> if b \<noteq> 0 then [fmt b] else [])) \<and>
   balance_writes (connectEffect fmt r v)
     = (if isConnected v \<and> truthy_string (address v)
        then balance_writes (handleGetBalance fmt r v) else [[]]) \<and>
   (withdrawHash v = Some h \<and> h \<noteq> [] \<and> withdrawSuccess v \<and> publicClient v \<longrightarrow>
      withdrawConfirmEffect WaitError v =
        [SetProgress 50, WaitForTransactionReceipt h, WaitFailed h,
         ConsoleError ''Transaction failed:'', SetProgress 0, SetIsLoading False] \<and>
      balance (run (withdrawConfirmEffect WaitError v) st) = balance st \<and>
      amount (run (withdrawConfirmEffect WaitError v) st) = amount st \<and>
      \<not> isLoading (run (withdrawConfirmEffect WaitError v) st) \<and>
      progress (run (withdrawConfirmEffect WaitError v) st) = 0 \<and>
      (isConnected st \<and> amount st \<noteq> [] \<and> publicClient st \<and> pu (amount st) = Some a \<longrightarrow>
         withdrawals (clickWithdraw pu wt (run (withdrawConfirmEffect WaitError v) st)) = [a]))"
proof -
  have handlers: "balance_writes (handleApprove wt v) = [] \<and>
      balance_writes (handleDeposit pu wt skip v) = [] \<and>
      balance_writes (handleWithdraw pu wt v) = []"
    by (simp add: balance_writes_handleApprove balance_writes_handleDeposit
        balance_writes_handleWithdraw)
  have refetch: "filter is_refetch (handleApprove wt v) = [] \<and>
      filter is_refetch (handleDeposit pu wt skip v) = [] \<and>
      filter is_refetch (handleWithdraw pu wt v) = []"
    by (simp add: handleApprove_def handleDeposit_def handleWithdraw_def split: option.splits)
  have confirm: "balance_writes (approveConfirmEffect pu wt w v) = [] \<and>
      balance_writes (depositConfirmEffect w v) = [] \<and>
      balance_writes (withdrawConfirmEffect w v) = []"
    by (simp add: approveConfirmEffect_def depositConfirmEffect_def withdrawConfirmEffect_def
        waitForTransaction_def balance_writes_append balance_writes_handleDeposit
        split: option.splits wait_result.splits)
  have writers: "balance_writes (balanceEffect fmt v)
        = (case bankBalance v of None \<Rightarrow> [] | Some b \<Rightarrow> if b \<noteq> 0 then [fmt b] else []) \<and>
      balance_writes (handleGetBalance fmt r v)
        = (case r of
             None \<Rightarrow> []
           | Some x \<Rightarrow>
               (case bankBalance v of None \<Rightarrow> []
                | Some b \<Rightarrow> if b \<noteq> 0 then [fmt b] else [])) \<and>
      balance_writes (connectEffect fmt r v)
        = (if isConnected v \<and> truthy_string (address v)
           then balance_writes (handleGetBalance fmt r v) else [[]])"
    by (simp add: balanceEffect_def handleGetBalance_def connectEffect_def
        split: option.splits)
  have fail: "withdrawHash v = Some h \<and> h \<noteq> [] \<and> withdrawSuccess v \<and> publicClient v \<Longrightarrow>
      withdrawConfirmEffect WaitError v =
        [SetProgress 50, WaitForTransactionReceipt h, WaitFailed h,
         ConsoleError ''Transaction failed:'', SetProgress 0, SetIsLoading False]"
    by (simp add: withdrawConfirmEffect_def waitForTransaction_def)
  have after: "run [SetProgress 50, WaitForTransactionReceipt h, WaitFailed h,
      ConsoleError ''Transaction failed:'', SetProgress 0, SetIsLoading False] st
      = st\<lparr>progress := 0, isLoading := False\<rparr>"
    by simp
  have again: "isConnected st \<and> amount st \<noteq> [] \<and> publicClient st \<and> pu (amount st) = Some a \<Longrightarrow>
      withdrawals (clickWithdraw pu wt (st\<lparr>progress := 0, isLoading := False\<rparr>)) = [a]"
    by (simp add: clickWithdraw_def handleWithdraw_def)
  show ?thesis
    using handlers refetch confirm writers fail after again
    by (simp add: run_reads)
qed

theorem C5_witness:
  "withdrawHash view_withdraw_mined = Some ''0xb2'' \<and> ''0xb2'' \<noteq> [] \<and>
   withdrawSuccess view_withdraw_mined \<and> publicClient view_withdraw_mined \<and>
   isConnected view_withdraw_mined \<and> amount view_withdraw_mined \<noteq> [] \<and>
   parseUnits18 (amount view_withdraw_mined) = Some 10000000000000000000 \<and>
   balance (run (withdrawConfirmEffect WaitError view_withdraw_mined) view_withdraw_mined)
     = balance view_withdraw_mined \<and>
   \<not> isLoading (run (withdrawConfirmEffect WaitError view_withdraw_mined)
       view_withdraw_mined) \<and>
   withdrawals (clickWithdraw parseUnits18 False
     (run (withdrawConfirmEffect WaitError view_withdraw_mined) view_withdraw_mined))
     = [10000000000000000000]"
proof -
  have h: "withdrawHash view_withdraw_mined = Some ''0xb2'' \<and> ''0xb2'' \<noteq> [] \<and>
      withdrawSuccess view_withdraw_mined \<and> publicClient view_withdraw_mined \<and>
      isConnected view_withdraw_mined \<and> amount view_withdraw_mined \<noteq> [] \<and>
      parseUnits18 (amount view_withdraw_mined) = Some 10000000000000000000"
    by (simp add: view_withdraw_mined_def parseUnits18_10)
  show ?thesis
    using h C5_cache_written_where [where pu = parseUnits18 and wt = False
        and v = view_withdraw_mined and st = view_withdraw_mined and h = "''0xb2''"
        and a = 10000000000000000000]
    by blast
qed

section \<open>The continuation of an approval\<close>

text \<open>
  Claim C6 does not hold for an approval that was mined and reverted, nor for the
  unknown allowance of claim C1. The wait of line 89 returns the receipt of a mined
  transaction whatever its status, lines 89-92 do not read it, and the \<open>then\<close> callback
  of lines 170-173 runs after every returned receipt: after a reverted approval the
  effect still refetches the allowance and calls the deposit write
  (\<open>reverted_approval_trace\<close>), so the deposit intent is not aborted. Only a wait that
  raises, which the \<open>catch\<close> block of lines 93-95 logs as a failed transaction and throws
  again, skips the callback.

  What the code does: where the allowance has been read and is below the amount, with a
  public client and a non-empty amount that parses, \<open>handleDeposit\<close> calls the approve
  write for the maximal amount and no deposit write. Once the write hook reports the
  approval's hash, the effect of lines 167-175 waits for its receipt. After a returned
  receipt, of either status, it refetches the allowance and then calls
  \<open>handleDeposit(true)\<close>, once. That call never approves, whatever \<open>isApproved\<close> and
  the allowance are, so the effect calls no approve write and at most one deposit write:
  the deposit of the amount of its render when that amount is present and parses and a
  public client is there. When the wait raises, the effect ends with the \<open>finally\<close>
  block: no refetch, no deposit, no second approval.
\<close>

theorem C6_approval_continuation:
  assumes "approveHash v = Some h" and "h \<noteq> []" and "approveSuccess v"
  shows "approveConfirmEffect pu wt (Receipt s) v =
           fst (waitForTransaction v h (Receipt s)) @
           RefetchAllowance # handleDeposit pu wt True v \<and>
         approvals (approveConfirmEffect pu wt w v) = [] \<and>
         length (deposits (approveConfirmEffect pu wt w v)) \<le> 1 \<and>
         handleDeposit pu wt True (v\<lparr>isApproved := b, allowance := x\<rparr>)
           = handleDeposit pu wt True v \<and>
         (amount v \<noteq> [] \<and> publicClient v \<and> pu (amount v) = Some a \<longrightarrow>
            deposits (approveConfirmEffect pu wt (Receipt s) v) = [a]) \<and>
         (publicClient v \<longrightarrow>
            approveConfirmEffect pu wt WaitError v =
              [SetProgress 50, WaitForTransactionReceipt h, WaitFailed h,
               ConsoleError ''Transaction failed:'', SetProgress 0, SetIsLoading False]) \<and>
         deposits (approveConfirmEffect pu wt WaitError v) = [] \<and>
         (allowance u = Some g \<and> g < c \<and> amount u \<noteq> [] \<and> publicClient u \<and>
          pu (amount u) = Some c \<longrightarrow>
            afterApprovedEffect pu u = Some (u\<lparr>isApproved := False\<rparr>) \<and>
            handleDeposit pu wt False (u\<lparr>isApproved := False\<rparr>)
              = handleApprove wt (u\<lparr>isApproved := False\<rparr>) \<and>
            approvals (handleDeposit pu wt False (u\<lparr>isApproved := False\<rparr>)) = [maxUint256] \<and>
            deposits (handleDeposit pu wt False (u\<lparr>isApproved := False\<rparr>)) = [])"
proof -
  have receipt: "approveConfirmEffect pu wt (Receipt s) v =
      fst (waitForTransaction v h (Receipt s)) @ RefetchAllowance # handleDeposit pu wt True v"
    using assms by (rule approveConfirmEffect_receipt)
  have raised: "publicClient v \<Longrightarrow> approveConfirmEffect pu wt WaitError v =
      [SetProgress 50, WaitForTransactionReceipt h, WaitFailed h,
       ConsoleError ''Transaction failed:'', SetProgress 0, SetIsLoading False]"
    using assms by (rule approveConfirmEffect_raised)
  have no_deposit: "deposits (approveConfirmEffect pu wt WaitError v) = []"
  proof (cases "publicClient v")
    case True
    then show ?thesis using raised by simp
  next
    case False
    then show ?thesis
      using approveConfirmEffect_no_client [OF assms, of pu wt WaitError] by simp
  qed
  have bypass: "handleDeposit pu wt True (v\<lparr>isApproved := b, allowance := x\<rparr>)
      = handleDeposit pu wt True v"
    by (simp add: handleDeposit_skip)
  have deposit_a: "amount v \<noteq> [] \<and> publicClient v \<and> pu (amount v) = Some a \<Longrightarrow>
      deposits (approveConfirmEffect pu wt (Receipt s) v) = [a]"
    using receipt
    by (simp add: deposits_append deposits_waitForTransaction handleDeposit_skip)
  have first: "allowance u = Some g \<and> g < c \<and> amount u \<noteq> [] \<and> publicClient u \<and>
      pu (amount u) = Some c \<Longrightarrow>
        afterApprovedEffect pu u = Some (u\<lparr>isApproved := False\<rparr>) \<and>
        handleDeposit pu wt False (u\<lparr>isApproved := False\<rparr>)
          = handleApprove wt (u\<lparr>isApproved := False\<rparr>) \<and>
        approvals (handleDeposit pu wt False (u\<lparr>isApproved := False\<rparr>)) = [maxUint256] \<and>
        deposits (handleDeposit pu wt False (u\<lparr>isApproved := False\<rparr>)) = []"
    by (simp add: afterApprovedEffect_def approvedEffect_def handleDeposit_def
        handleApprove_def needsApproval_def)
  show ?thesis
    using receipt raised no_deposit bypass deposit_a first
      approvals_approveConfirmEffect [of pu wt w v]
      deposits_approveConfirmEffect_le [of pu wt w v]
    by blast
qed

theorem C6_witness:
  "approveHash view_approve_mined = Some ''0xa1'' \<and> ''0xa1'' \<noteq> [] \<and>
   approveSuccess view_approve_mined \<and>
   amount view_approve_mined \<noteq> [] \<and> publicClient view_approve_mined \<and>
   parseUnits18 (amount view_approve_mined) = Some 10000000000000000000 \<and>
   allowance view_unapproved = Some 0 \<and> (0::int) < 10000000000000000000 \<and>
   amount view_unapproved \<noteq> [] \<and> publicClient view_unapproved \<and>
   parseUnits18 (amount view_unapproved) = Some 10000000000000000000 \<and>
   approvals (handleDeposit parseUnits18 False False (view_unapproved\<lparr>isApproved := False\<rparr>))
     = [maxUint256] \<and>
   approvals (approveConfirmEffect parseUnits18 False (Receipt Success) view_approve_mined)
     = [] \<and>
   deposits (approveConfirmEffect parseUnits18 False (Receipt Success) view_approve_mined)
     = [10000000000000000000] \<and>
   deposits (approveConfirmEffect parseUnits18 False (Receipt Reverted) view_approve_mined)
     = [10000000000000000000] \<and>
   deposits (approveConfirmEffect parseUnits18 False WaitError view_approve_mined) = []"
proof -
  have h1: "approveHash view_approve_mined = Some ''0xa1''"
    by (simp add: view_approve_mined_def)
  have h2: "''0xa1'' \<noteq> []" by simp
  have h3: "approveSuccess view_approve_mined"
    by (simp add: view_approve_mined_def)
  have h4: "amount view_approve_mined \<noteq> [] \<and> publicClient view_approve_mined \<and>
      parseUnits18 (amount view_approve_mined) = Some 10000000000000000000"
    by (simp add: view_approve_mined_def view_unapproved_def parseUnits18_10)
  have h5: "allowance view_unapproved = Some 0 \<and> (0::int) < 10000000000000000000 \<and>
      amount view_unapproved \<noteq> [] \<and> publicClient view_unapproved \<and>
      parseUnits18 (amount view_unapproved) = Some 10000000000000000000"
    by (simp add: view_unapproved_def parseUnits18_10)
  note c6 = C6_approval_continuation [where pu = parseUnits18 and wt = False
      and a = 10000000000000000000 and c = 10000000000000000000 and g = 0
      and u = view_unapproved and s = Success, OF h1 h2 h3]
  have first: "approvals (handleDeposit parseUnits18 False False
      (view_unapproved\<lparr>isApproved := False\<rparr>)) = [maxUint256]"
    using c6 h5 by blast
  have ok: "approvals (approveConfirmEffect parseUnits18 False (Receipt Success)
        view_approve_mined) = [] \<and>
      deposits (approveConfirmEffect parseUnits18 False (Receipt Success) view_approve_mined)
        = [10000000000000000000]"
    using c6 [of "Receipt Success"] h4 by blast
  note c6r = C6_approval_continuation [where pu = parseUnits18 and wt = False
      and a = 10000000000000000000 and s = Reverted, OF h1 h2 h3]
  have reverted:
    "deposits (approveConfirmEffect parseUnits18 False (Receipt Reverted) view_approve_mined)
       = [10000000000000000000]"
    using c6r h4 by blast
  have fail:
    "deposits (approveConfirmEffect parseUnits18 False WaitError view_approve_mined) = []"
    using c6 by blast
  show ?thesis
    using h1 h2 h3 h4 h5 first ok reverted fail by blast
qed

section \<open>The amount of an approval\<close>

text \<open>
  Claim C7. Every approval the deposit flow submits, from \<open>handleApprove\<close>, from
  \<open>handleDeposit\<close> with or without the check, from the Deposit button and from the
  continuation of an earlier approval, asks for \<open>2^256 - 1\<close>, the largest value of a
  256-bit unsigned integer, whatever amount was typed; and where an approval is needed
  for an amount \<open>a\<close>, that is the one approval submitted.
\<close>

theorem C7_saturating_authorization:
  "set (approvals (handleApprove wt v)) \<subseteq> {2 ^ 256 - 1} \<and>
   set (approvals (handleDeposit pu wt skip v)) \<subseteq> {2 ^ 256 - 1} \<and>
   set (approvals (clickDeposit pu wt v)) \<subseteq> {2 ^ 256 - 1} \<and>
   set (approvals (approveConfirmEffect pu wt w v)) \<subseteq> {2 ^ 256 - 1} \<and>
   (amount v \<noteq> [] \<and> publicClient v \<and> pu (amount v) = Some a \<and>
    needsApproval False (isApproved v) (allowance v) a \<longrightarrow>
      approvals (handleDeposit pu wt False v) = [2 ^ 256 - 1]) \<and>
   maxUint256 = uint (- 1 :: 256 word)"
proof -
  have a: "set (approvals (handleApprove wt v)) \<subseteq> {maxUint256}"
    by (simp add: handleApprove_def)
  have d: "set (approvals (handleDeposit pu wt skip v)) \<subseteq> {maxUint256}" for skip
    by (rule approvals_handleDeposit)
  have c: "set (approvals (clickDeposit pu wt v)) \<subseteq> {maxUint256}"
    using d [of False] by (simp add: clickDeposit_def)
  have e: "approvals (approveConfirmEffect pu wt w v) = []"
    by (rule approvals_approveConfirmEffect)
  have n: "amount v \<noteq> [] \<and> publicClient v \<and> pu (amount v) = Some a \<and>
      needsApproval False (isApproved v) (allowance v) a \<Longrightarrow>
      approvals (handleDeposit pu wt False v) = [maxUint256]"
    by (simp add: handleDeposit_def handleApprove_def)
  show ?thesis
    using a d [of skip] c e n by (simp add: maxUint256_value uint256_max)
qed

theorem C7_witness:
  "amount view_unapproved \<noteq> [] \<and> publicClient view_unapproved \<and>
   parseUnits18 (amount view_unapproved) = Some 10000000000000000000 \<and>
   needsApproval False (isApproved view_unapproved) (allowance view_unapproved)
     10000000000000000000 \<and>
   approvals (handleDeposit parseUnits18 False False view_unapproved)
     = [115792089237316195423570985008687907853269984665640564039457584007913129639935]"
proof -
  have h: "amount view_unapproved \<noteq> [] \<and> publicClient view_unapproved \<and>
      parseUnits18 (amount view_unapproved) = Some 10000000000000000000 \<and>
      needsApproval False (isApproved view_unapproved) (allowance view_unapproved)
        10000000000000000000"
    by (simp add: view_unapproved_def initial_def needsApproval_def parseUnits18_10)
  have "approvals (handleDeposit parseUnits18 False False view_unapproved) = [2 ^ 256 - 1]"
    using C7_saturating_authorization [where pu = parseUnits18 and v = view_unapproved
        and a = 10000000000000000000 and wt = False] h
    by blast
  then show ?thesis using h by simp
qed

section \<open>A submission that fails after the call\<close>

text \<open>
  Claim C8 does not hold for a submission that fails after the write call has returned.
  The handlers call \<open>approve\<close>, \<open>deposit\<close> and \<open>withdraw\<close> without awaiting anything,
  so their \<open>catch\<close> blocks see only an exception thrown by the call itself
  (\<open>write_throw_clears\<close>); and the wait for a receipt clears the indicator on both of its
  outcomes (\<open>waitForTransaction_clears\<close>). A rejection by the wallet or the node comes
  later and reaches the component only as \<open>writeSettled\<close> with no hash. For the account
  of \<open>view_unapproved\<close>, a click on Deposit submits the approval and sets the loading
  flag with the progress at 10; after the rejection the flag is still set and the
  progress still 10. In that state, whatever is typed or read afterwards, no confirmation
  effect does anything and both buttons are disabled, so nothing clears the flag.
\<close>

theorem C8_rejected_submission_stays_loading:
  "approvals (clickDeposit parseUnits18 False view_unapproved) = [maxUint256] \<and>
   writeSettled ApproveWrite None
       (run (clickDeposit parseUnits18 False view_unapproved) view_unapproved)
     = view_unapproved\<lparr>isLoading := True, progress := 10\<rparr> \<and>
   approveConfirmEffect pu wt w
     (view_unapproved\<lparr>isLoading := True, progress := 10, amount := s, allowance := x,
        bankBalance := y, isApproved := b\<rparr>) = [] \<and>
   depositConfirmEffect w
     (view_unapproved\<lparr>isLoading := True, progress := 10, amount := s, allowance := x,
        bankBalance := y, isApproved := b\<rparr>) = [] \<and>
   withdrawConfirmEffect w
     (view_unapproved\<lparr>isLoading := True, progress := 10, amount := s, allowance := x,
        bankBalance := y, isApproved := b\<rparr>) = [] \<and>
   clickDeposit pu wt
     (view_unapproved\<lparr>isLoading := True, progress := 10, amount := s, allowance := x,
        bankBalance := y, isApproved := b\<rparr>) = [] \<and>
   clickWithdraw pu wt
     (view_unapproved\<lparr>isLoading := True, progress := 10, amount := s, allowance := x,
        bankBalance := y, isApproved := b\<rparr>) = []"
proof -
  have click: "clickDeposit parseUnits18 False view_unapproved
      = [SetIsLoading True, SetProgress 10, Approve maxUint256]"
    by (simp add: clickDeposit_def handleDeposit_def handleApprove_def needsApproval_def
        view_unapproved_def initial_def parseUnits18_10)
  have after: "writeSettled ApproveWrite None
        (run [SetIsLoading True, SetProgress 10, Approve maxUint256] view_unapproved)
      = view_unapproved\<lparr>isLoading := True, progress := 10\<rparr>"
    by (simp add: view_unapproved_def initial_def)
  show ?thesis
    unfolding click after
    by (simp add: approveConfirmEffect_def depositConfirmEffect_def withdrawConfirmEffect_def
        clickDeposit_def clickWithdraw_def view_unapproved_def initial_def)
qed

theorem C8_witness:
  "isLoading (writeSettled ApproveWrite None
     (run (clickDeposit parseUnits18 False view_unapproved) view_unapproved)) \<and>
   progress (writeSettled ApproveWrite None
     (run (clickDeposit parseUnits18 False view_unapproved) view_unapproved)) = 10 \<and>
   approveConfirmEffect parseUnits18 False (Receipt Success) (writeSettled ApproveWrite None
     (run (clickDeposit parseUnits18 False view_unapproved) view_unapproved)) = [] \<and>
   clickDeposit parseUnits18 False (writeSettled ApproveWrite None
     (run (clickDeposit parseUnits18 False view_unapproved) view_unapproved)) = [] \<and>
   clickWithdraw parseUnits18 False (writeSettled ApproveWrite None
     (run (clickDeposit parseUnits18 False view_unapproved) view_unapproved)) = []"
proof -
  have same: "view_unapproved\<lparr>isLoading := True, progress := 10, amount := ''10'',
      allowance := Some 0, bankBalance := None, isApproved := False\<rparr>
      = view_unapproved\<lparr>isLoading := True, progress := 10\<rparr>"
    by (simp add: view_unapproved_def initial_def)
  show ?thesis
    using C8_rejected_submission_stays_loading [where pu = parseUnits18 and wt = False
        and w = "Receipt Success" and s = "''10''" and x = "Some 0" and y = None and b = False]
    by (simp add: same)
qed

section \<open>The balance display after a refetch\<close>




section \<open>Withdrawals are not checked against the balance\<close>

text \<open>
  Claim C10, as stated, fails for the non-empty inputs that are not submitted at all: an
  amount that \<open>parseUnits\<close> rejects, such as \<open>1e5\<close>, which a number input accepts, ends
  in the \<open>catch\<close> block before the write call; and without a public client the handler
  returns at its first line.
\<close>

theorem C10_counterexample:
  "amount (initial\<lparr>amount := ''1e5'', publicClient := True\<rparr>) \<noteq> [] \<and>
   handleWithdraw parseUnits18 False (initial\<lparr>amount := ''1e5'', publicClient := True\<rparr>)
     = [SetIsLoading True, SetProgress 25, ConsoleError ''Error withdrawing:'',
        SetIsLoading False, SetProgress 0] \<and>
   amount (initial\<lparr>amount := ''10''\<rparr>) \<noteq> [] \<and>
   handleWithdraw parseUnits18 False (initial\<lparr>amount := ''10''\<rparr>) = []"
  by (simp add: handleWithdraw_def initial_def parseUnits18_1e5)

text \<open>
  Claim C10, amended. \<open>handleWithdraw\<close> does not depend on the cached balance or its
  display. With a public client present, every non-empty amount that \<open>parseUnits\<close>
  accepts is submitted as one withdrawal of the parsed amount, also when it exceeds the
  cached balance; the ledger is left to reject it. An amount that is empty or that
  \<open>parseUnits\<close> rejects, or a missing public client, gives no withdrawal.
\<close>

theorem C10_withdraw_without_balance_check:
  "handleWithdraw pu wt (v\<lparr>bankBalance := b, balance := s\<rparr>) = handleWithdraw pu wt v \<and>
   (amount v \<noteq> [] \<and> publicClient v \<and> pu (amount v) = Some a \<longrightarrow>
      withdrawals (handleWithdraw pu wt v) = [a]) \<and>
   (amount v = [] \<or> \<not> publicClient v \<or> pu (amount v) = None \<longrightarrow>
      withdrawals (handleWithdraw pu wt v) = [])"
  by (auto simp: handleWithdraw_def)

theorem C10_witness:
  "amount view_withdraw_mined \<noteq> [] \<and> publicClient view_withdraw_mined \<and>
   parseUnits18 (amount view_withdraw_mined) = Some 10000000000000000000 \<and>
   bankBalance view_withdraw_mined = Some 7000000000000000000 \<and>
   withdrawals (handleWithdraw parseUnits18 False view_withdraw_mined)
     = [10000000000000000000]"
proof -
  have h: "amount view_withdraw_mined \<noteq> [] \<and> publicClient view_withdraw_mined \<and>
      parseUnits18 (amount view_withdraw_mined) = Some 10000000000000000000 \<and>
      bankBalance view_withdraw_mined = Some 7000000000000000000"
    by (simp add: view_withdraw_mined_def parseUnits18_10)
  show ?thesis
    using h C10_withdraw_without_balance_check [where pu = parseUnits18 and wt = False
        and v = view_withdraw_mined and a = 10000000000000000000]
    by blast
qed

end
